theory Spec2Isabelle
  imports Main "HOL-Library.Word"
begin

unbundle bit_operations_syntax

section \<open>The system interface that opensock.c is written against\<close>

text \<open>
  \<^verbatim>\<open>opensock.c\<close> is one function, \<^verbatim>\<open>main\<close>, made of calls into the C library and the
  kernel. The calls are modelled as functions on an explicit process state; what the
  machine answers (whether a raw socket is granted, which interfaces exist, whether a
  membership is accepted, which files can be executed) is a parameter, the record
  \<open>env\<close>. Symbolic constants of the system headers are constructors of datatypes.
\<close>

datatype errcode =
  E_OK | EPERM | ENOENT | EBADF | EACCES | ENODEV | EINVAL | EMFILE | ENOTSOCK | ENOPROTOOPT
  | ENOEXEC | ENOTDIR | ENAMETOOLONG | ETIMEDOUT | ESTALE

datatype family = AF_UNIX | AF_INET | AF_PACKET

datatype socktype = SOCK_STREAM | SOCK_DGRAM | SOCK_RAW

datatype optlevel = SOL_SOCKET | SOL_PACKET

datatype optname = PACKET_ADD_MEMBERSHIP | PACKET_DROP_MEMBERSHIP

datatype mr_kind = PACKET_MR_MULTICAST | PACKET_MR_PROMISC | PACKET_MR_ALLMULTI

text \<open>
  \<^verbatim>\<open>struct packet_mreq\<close> of \<^verbatim>\<open>netpacket/packet.h\<close>: an \<^verbatim>\<open>int\<close> interface index, two
  \<^verbatim>\<open>unsigned short\<close> fields and an array of 8 address bytes, of which \<open>mr_alen\<close> count.
\<close>

record packet_mreq =
  mr_ifindex :: "32 word"
  mr_type :: mr_kind
  mr_alen :: "16 word"
  mr_address :: "8 word list"

text \<open>An open socket, as far as this program configures one.\<close>

record sock =
  so_family :: family
  so_type :: socktype
  so_protocol :: "16 word"
  so_mships :: "packet_mreq list"

datatype ofile = Other_file | Socket sock

text \<open>The calls the program can issue, in the order it issues them, form its trace.\<close>

datatype call =
    is_socket: Call_socket family socktype "16 word"
  | is_if_nametoindex: Call_if_nametoindex string
  | is_setsockopt: Call_setsockopt int optlevel optname packet_mreq
  | is_dup2: Call_dup2 int int
  | is_close: Call_close int
  | is_execvp: Call_execvp string "string list"

text \<open>
  The ambient system. \<open>nofile\<close> is the limit on descriptor numbers (descriptors are
  \<open>0 .. nofile - 1\<close>); \<open>socket_refusal\<close> is the kernel's reason for refusing a new
  socket, if it has one (missing capability, exhausted resources); \<open>ifaces\<close> is the table
  of interface names; \<open>mship_refusal\<close> the kernel's reason for rejecting a membership
  request; \<open>search_path\<close> the elements of \<^verbatim>\<open>PATH\<close> in order, as the colons separate
  them (of the default \<^verbatim>\<open>/bin:/usr/bin\<close> when \<^verbatim>\<open>PATH\<close> is not set), an empty element being
  the empty string; \<open>exec_probe\<close> the error with which the kernel's \<^verbatim>\<open>execve\<close> refuses a
  path name (\<open>None\<close>: it executes it).
\<close>

record env =
  little_endian :: bool
  nofile :: int
  socket_refusal :: "errcode option"
  ifaces :: "string \<rightharpoonup> 32 word"
  mship_refusal :: "packet_mreq \<Rightarrow> errcode option"
  search_path :: "string list"
  exec_probe :: "string \<Rightarrow> errcode option"

text \<open>
  The process: a descriptor table into a store of open files (two descriptors with the
  same index share one open file, which is what \<^verbatim>\<open>dup2\<close> produces), \<^verbatim>\<open>errno\<close>, the
  trace of calls and what has been written to the error stream.
\<close>

record proc =
  fdtab :: "int \<rightharpoonup> nat"
  files :: "ofile list"
  errno :: errcode
  calls :: "call list"
  stderr :: "string list"

definition start :: "(int \<rightharpoonup> nat) \<Rightarrow> ofile list \<Rightarrow> proc" where
  "start fdt fs = \<lparr>fdtab = fdt, files = fs, errno = E_OK, calls = [], stderr = []\<rparr>"

definition fd_file :: "proc \<Rightarrow> int \<Rightarrow> ofile option" where
  "fd_file s fd =
     (case fdtab s fd of
        None \<Rightarrow> None
      | Some i \<Rightarrow> if i < length (files s) then Some (files s ! i) else None)"

definition log_call :: "call \<Rightarrow> proc \<Rightarrow> proc" where
  "log_call c s = s\<lparr>calls := calls s @ [c]\<rparr>"

definition fail :: "errcode \<Rightarrow> proc \<Rightarrow> int \<times> proc" where
  "fail e s = (- 1, s\<lparr>errno := e\<rparr>)"

subsection \<open>Byte order\<close>

text \<open>
  \<^verbatim>\<open>htons\<close> swaps the two bytes of a 16-bit value on a little-endian host and is the
  identity on a big-endian one. \<open>stored_bytes\<close> is the value as the host lays it out in
  memory, lowest address first.
\<close>

definition htons :: "env \<Rightarrow> 16 word \<Rightarrow> 16 word" where
  "htons env x = (if little_endian env then push_bit 8 x OR drop_bit 8 x else x)"

definition stored_bytes :: "env \<Rightarrow> 16 word \<Rightarrow> 8 word list" where
  "stored_bytes env x =
     (if little_endian env then [ucast x, ucast (drop_bit 8 x)]
      else [ucast (drop_bit 8 x), ucast x])"

subsection \<open>Descriptors and sockets\<close>

text \<open>A new descriptor is the lowest number not in use, below the limit.\<close>

definition lowest_free :: "env \<Rightarrow> proc \<Rightarrow> int option" where
  "lowest_free env s = find (\<lambda>fd. fdtab s fd = None) [0..nofile env - 1]"

definition socket :: "env \<Rightarrow> family \<Rightarrow> socktype \<Rightarrow> 16 word \<Rightarrow> proc \<Rightarrow> int \<times> proc" where
  "socket env fam ty proto s0 =
     (let s = log_call (Call_socket fam ty proto) s0 in
      case socket_refusal env of
        Some e \<Rightarrow> fail e s
      | None \<Rightarrow>
          (case lowest_free env s of
             None \<Rightarrow> fail EMFILE s
           | Some fd \<Rightarrow>
               (fd, s\<lparr>fdtab := (fdtab s)(fd \<mapsto> length (files s)),
                      files := files s @
                        [Socket \<lparr>so_family = fam, so_type = ty,
                                 so_protocol = proto, so_mships = []\<rparr>]\<rparr>)))"

text \<open>
  \<^verbatim>\<open>if_nametoindex\<close> returns 0, with \<^verbatim>\<open>errno\<close> set, for a name the kernel does not know.
  The C library opens a descriptor of its own inside the call and closes it again; the
  model is of a process that has one to spare, and leaves the table as it is. (With no
  descriptor left the library's call returns 0 with \<^verbatim>\<open>ENOENT\<close> for any name.)
\<close>

definition if_nametoindex :: "env \<Rightarrow> string \<Rightarrow> proc \<Rightarrow> 32 word \<times> proc" where
  "if_nametoindex env name s0 =
     (let s = log_call (Call_if_nametoindex name) s0 in
      case ifaces env name of
        None \<Rightarrow> (0, s\<lparr>errno := ENODEV\<rparr>)
      | Some i \<Rightarrow> (i, s))"

text \<open>
  \<^verbatim>\<open>setsockopt\<close>, for the one option the program uses: adding a link-layer membership
  to a packet socket. Any other option is answered \<^verbatim>\<open>ENOPROTOOPT\<close> here. The request
  goes to the open file behind the descriptor, so it is seen through every descriptor
  that shares it. The length argument of the call, \<^verbatim>\<open>sizeof(multi)\<close> in the program, is
  the size of the request and is left out.
\<close>

definition setsockopt ::
  "env \<Rightarrow> int \<Rightarrow> optlevel \<Rightarrow> optname \<Rightarrow> packet_mreq \<Rightarrow> proc \<Rightarrow> int \<times> proc" where
  "setsockopt env fd lvl opt mr s0 =
     (let s = log_call (Call_setsockopt fd lvl opt mr) s0 in
      case fd_file s fd of
        None \<Rightarrow> fail EBADF s
      | Some Other_file \<Rightarrow> fail ENOTSOCK s
      | Some (Socket sk) \<Rightarrow>
          if lvl = SOL_PACKET \<and> opt = PACKET_ADD_MEMBERSHIP \<and> so_family sk = AF_PACKET then
            if length (mr_address mr) < unat (mr_alen mr) then fail EINVAL s
            else
              (case mship_refusal env mr of
                 Some e \<Rightarrow> fail e s
               | None \<Rightarrow>
                   (0, s\<lparr>files := (files s)
                           [the (fdtab s fd) :=
                              Socket (sk\<lparr>so_mships := so_mships sk @ [mr]\<rparr>)]\<rparr>))
          else fail ENOPROTOOPT s)"

text \<open>
  \<^verbatim>\<open>dup2\<close>: fails on a descriptor that is not open or a target outside the table; does
  nothing when both descriptors are the same; otherwise the target (silently closed if
  it was open) becomes one more reference to the same open file.
\<close>

definition dup2 :: "env \<Rightarrow> int \<Rightarrow> int \<Rightarrow> proc \<Rightarrow> int \<times> proc" where
  "dup2 env oldfd newfd s0 =
     (let s = log_call (Call_dup2 oldfd newfd) s0 in
      case fdtab s oldfd of
        None \<Rightarrow> fail EBADF s
      | Some i \<Rightarrow>
          if newfd < 0 \<or> nofile env \<le> newfd then fail EBADF s
          else if oldfd = newfd then (newfd, s)
          else (newfd, s\<lparr>fdtab := (fdtab s)(newfd \<mapsto> i)\<rparr>))"

definition close :: "int \<Rightarrow> proc \<Rightarrow> int \<times> proc" where
  "close fd s0 =
     (let s = log_call (Call_close fd) s0 in
      case fdtab s fd of
        None \<Rightarrow> fail EBADF s
      | Some i \<Rightarrow> (0, s\<lparr>fdtab := (fdtab s)(fd := None)\<rparr>))"

subsection \<open>Program lookup\<close>

text \<open>
  \<^verbatim>\<open>execvp\<close> of the C library, on top of the kernel's \<^verbatim>\<open>execve\<close>. One attempt on a path
  name: the kernel executes it with the caller's argument vector; or it refuses it with
  \<^verbatim>\<open>ENOEXEC\<close> (a file that is neither a binary nor a script with an interpreter line),
  and the library executes the shell \<^verbatim>\<open>/bin/sh\<close> instead, with the path name as the
  shell's first argument followed by the caller's arguments but the first; or the
  attempt fails with the last error seen.
\<close>

definition try_exec ::
  "(string \<Rightarrow> errcode option) \<Rightarrow> string \<Rightarrow> string list \<Rightarrow> errcode + string \<times> string list" where
  "try_exec probe path args =
     (case probe path of
        None \<Rightarrow> Inr (path, args)
      | Some e \<Rightarrow>
          if e = ENOEXEC then
            (case probe ''/bin/sh'' of
               None \<Rightarrow> Inr (''/bin/sh'', ''/bin/sh'' # path # drop 1 args)
             | Some e' \<Rightarrow> Inl e')
          else Inl e)"

text \<open>
  The candidate for an element of \<^verbatim>\<open>PATH\<close>: the element, a slash and the name, or the
  bare name (looked up in the working directory) for an empty element. After a failed
  attempt the search goes on to the next element on the errors of \<open>goes_on\<close>, and ends
  on any other error.
\<close>

definition path_candidate :: "string \<Rightarrow> string \<Rightarrow> string" where
  "path_candidate d file = (if d = [] then file else d @ ''/'' @ file)"

definition goes_on :: "errcode \<Rightarrow> bool" where
  "goes_on e =
     (e = EACCES \<or> e = ENOENT \<or> e = ESTALE \<or> e = ENOTDIR \<or> e = ENODEV \<or> e = ETIMEDOUT)"

text \<open>
  The search over the elements of \<^verbatim>\<open>PATH\<close>, in order. \<open>got_eacces\<close> records that an
  attempt failed with \<^verbatim>\<open>EACCES\<close>; \<open>cur\<close> is the current \<^verbatim>\<open>errno\<close>. When every element has
  been tried in vain the search fails with \<^verbatim>\<open>EACCES\<close> if one was seen, and with the
  error of the last attempt otherwise.
\<close>

fun path_search ::
  "(string \<Rightarrow> errcode option) \<Rightarrow> string \<Rightarrow> string list \<Rightarrow> string list \<Rightarrow> bool \<Rightarrow> errcode
     \<Rightarrow> errcode + string \<times> string list" where
  "path_search probe file args [] got_eacces cur = Inl (if got_eacces then EACCES else cur)"
| "path_search probe file args (d # ds) got_eacces cur =
     (case try_exec probe (path_candidate d file) args of
        Inr r \<Rightarrow> Inr r
      | Inl e \<Rightarrow>
          if goes_on e then path_search probe file args ds (got_eacces \<or> e = EACCES) e
          else Inl e)"

text \<open>
  An empty name fails with \<^verbatim>\<open>ENOENT\<close>; a name containing a slash is attempted as it is;
  any other name is searched for, unless it is longer than \<^verbatim>\<open>NAME_MAX\<close>, 255. The
  library's limits on the length of \<^verbatim>\<open>PATH\<close> and on the number of arguments are left out.
\<close>

definition execvp_lookup ::
  "env \<Rightarrow> errcode \<Rightarrow> string \<Rightarrow> string list \<Rightarrow> errcode + string \<times> string list" where
  "execvp_lookup env cur file args =
     (if file = [] then Inl ENOENT
      else if CHR ''/'' \<in> set file then try_exec (exec_probe env) file args
      else if 255 < length file then Inl ENAMETOOLONG
      else path_search (exec_probe env) file args (search_path env) False cur)"

text \<open>
  \<^verbatim>\<open>execvp\<close> returns only when it fails. \<open>Some (img, args')\<close> stands for the process
  image having been replaced by the program at \<open>img\<close>, started with the argument vector
  \<open>args'\<close>; \<open>None\<close> for a return of \<open>-1\<close> with \<^verbatim>\<open>errno\<close> set.
\<close>

definition execvp ::
  "env \<Rightarrow> string \<Rightarrow> string list \<Rightarrow> proc \<Rightarrow> (string \<times> string list) option \<times> proc" where
  "execvp env file args s0 =
     (let s = log_call (Call_execvp file args) s0 in
      case execvp_lookup env (errno s) file args of
        Inl e \<Rightarrow> (None, s\<lparr>errno := e\<rparr>)
      | Inr r \<Rightarrow> (Some r, s))"



subsection \<open>The error stream\<close>

definition newline :: string where
  "newline = [CHR 0x0A]"

fun strerror :: "errcode \<Rightarrow> string" where
  "strerror E_OK = ''Success''"
| "strerror EPERM = ''Operation not permitted''"
| "strerror ENOENT = ''No such file or directory''"
| "strerror EBADF = ''Bad file descriptor''"
| "strerror EACCES = ''Permission denied''"
| "strerror ENODEV = ''No such device''"
| "strerror EINVAL = ''Invalid argument''"
| "strerror EMFILE = ''Too many open files''"
| "strerror ENOTSOCK = ''Socket operation on non-socket''"
| "strerror ENOPROTOOPT = ''Protocol not available''"
| "strerror ENOEXEC = ''Exec format error''"
| "strerror ENOTDIR = ''Not a directory''"
| "strerror ENAMETOOLONG = ''File name too long''"
| "strerror ETIMEDOUT = ''Connection timed out''"
| "strerror ESTALE = ''Stale file handle''"

text \<open>
  The error stream is a log of the lines written to it. \<^verbatim>\<open>perror\<close> writes its argument,
  a colon and the text of the current \<^verbatim>\<open>errno\<close>.
\<close>

definition fprintf_stderr :: "string \<Rightarrow> proc \<Rightarrow> proc" where
  "fprintf_stderr line s = s\<lparr>stderr := stderr s @ [line]\<rparr>"

definition perror :: "string \<Rightarrow> proc \<Rightarrow> proc" where
  "perror msg s = fprintf_stderr (msg @ '': '' @ strerror (errno s) @ newline) s"

section \<open>The program\<close>

text \<open>
  A run ends with the process exiting with a status, or with its image replaced by
  another program, started with an argument vector, which then owns the descriptor
  table of the final state.
\<close>

datatype outcome = Exited int | Replaced string "string list"

text \<open>
  \<open>argv\<close> is the argument vector, \<^verbatim>\<open>argc\<close> its length. The usage line prints
  \<^verbatim>\<open>argv[0]\<close>, which is a null pointer when the vector is empty; the C library prints a
  null string argument as \<^verbatim>\<open>(null)\<close>.
\<close>

definition argv0 :: "string list \<Rightarrow> string" where
  "argv0 argv = (case argv of [] \<Rightarrow> ''(null)'' | a # _ \<Rightarrow> a)"

text \<open>
  The initialiser of \<^verbatim>\<open>multi\<close> at lines 39 to 44. The index is an \<^verbatim>\<open>unsigned int\<close> stored
  in an \<^verbatim>\<open>int\<close> field, the same 32 bits; the six address bytes given are followed by
  zeros in the array of eight.
\<close>

definition multi :: "32 word \<Rightarrow> packet_mreq" where
  "multi ifidx =
     \<lparr>mr_ifindex = ifidx, mr_type = PACKET_MR_MULTICAST, mr_alen = 6,
      mr_address = [0x71, 0xb3, 0xd5, 0x3a, 0x6f, 0x00, 0, 0]\<rparr>"

text \<open>
  \<^verbatim>\<open>main\<close>, statement by statement. The values returned by \<^verbatim>\<open>dup2\<close> and \<^verbatim>\<open>close\<close> at
  lines 53 and 54 are not looked at, as in the source.
\<close>

definition main :: "env \<Rightarrow> string list \<Rightarrow> proc \<Rightarrow> outcome \<times> proc" where
  "main env argv s0 =
     (if length argv < 3 then
        (Exited 1,
         fprintf_stderr (''Usage: '' @ argv0 argv @ '' <interface> prog args ...'' @ newline) s0)
      else
        let (sock, s1) = socket env AF_PACKET SOCK_RAW (htons env 0x88b5) s0 in
        if sock < 0 then (Exited 1, perror ''cannot open socket'' s1)
        else
          let (ifidx, s2) = if_nametoindex env (argv ! 1) s1 in
          if ifidx = 0 then (Exited 1, perror ''cannot find interface'' s2)
          else
            let (ss, s3) = setsockopt env sock SOL_PACKET PACKET_ADD_MEMBERSHIP (multi ifidx) s2 in
            if ss < 0 then (Exited 1, perror ''cannot setsockopt'' s3)
            else
              let (d, s4) = dup2 env sock 42 s3;
                  (c, s5) = close sock s4
              in case execvp env (argv ! 2) (drop 2 argv) s5 of
                   (Some (img, args), s6) \<Rightarrow> (Replaced img args, s6)
                 | (None, s6) \<Rightarrow> (Exited 1, perror ''exec failed'' s6))"

subsection \<open>Concrete machines and invocations\<close>

text \<open>
  A little-endian host with one interface, \<^verbatim>\<open>eth0\<close> of index 2, on which the only
  executable is \<^verbatim>\<open>/bin/echo\<close>; the usual three descriptors, all on one terminal; and
  the invocation \<^verbatim>\<open>opensock eth0 echo hello\<close>.
\<close>

definition host :: env where
  "host =
     \<lparr>little_endian = True, nofile = 1024, socket_refusal = None,
      ifaces = [''eth0'' \<mapsto> 2], mship_refusal = (\<lambda>mr. None),
      search_path = [''/usr/bin'', ''/bin''],
      exec_probe = (\<lambda>p. if p = ''/bin/echo'' then None else Some ENOENT)\<rparr>"

definition std_fds :: "int \<rightharpoonup> nat" where
  "std_fds = [0 \<mapsto> 0, 1 \<mapsto> 0, 2 \<mapsto> 0]"

definition echo_argv :: "string list" where
  "echo_argv = [''opensock'', ''eth0'', ''echo'', ''hello'']"

text \<open>A parent that leaves descriptors 0 to 41 open, so that the next free one is 42.\<close>

definition fds_0_41 :: "int \<rightharpoonup> nat" where
  "fds_0_41 = (\<lambda>fd. if 0 \<le> fd \<and> fd < 42 then Some 0 else None)"

text \<open>The same host with a descriptor limit of 42, as after \<^verbatim>\<open>ulimit -n 42\<close>.\<close>

definition host_42 :: env where
  "host_42 = host\<lparr>nofile := 42\<rparr>"



subsection \<open>States along a run\<close>

text \<open>
  The open file that the program's call of \<^verbatim>\<open>socket\<close> creates, holding the memberships
  \<open>ms\<close>; the state of a run whose socket, at descriptor \<open>sock\<close>, has joined the group
  on interface \<open>idx\<close>; and the state of that run once lines 53 to 55 have been executed.
\<close>

definition packet_socket :: "env \<Rightarrow> packet_mreq list \<Rightarrow> ofile" where
  "packet_socket env ms =
     Socket \<lparr>so_family = AF_PACKET, so_type = SOCK_RAW,
             so_protocol = htons env 0x88b5, so_mships = ms\<rparr>"

definition joined :: "env \<Rightarrow> string list \<Rightarrow> int \<Rightarrow> 32 word \<Rightarrow> proc \<Rightarrow> proc" where
  "joined env argv sock idx s =
     s\<lparr>fdtab := (fdtab s)(sock \<mapsto> length (files s)),
       calls := calls s @ [Call_socket AF_PACKET SOCK_RAW (htons env 0x88b5),
                           Call_if_nametoindex (argv ! 1),
                           Call_setsockopt sock SOL_PACKET PACKET_ADD_MEMBERSHIP (multi idx)],
       files := files s @ [packet_socket env [multi idx]]\<rparr>"

definition handed :: "env \<Rightarrow> string list \<Rightarrow> int \<Rightarrow> 32 word \<Rightarrow> proc \<Rightarrow> proc" where
  "handed env argv sock idx s =
     s\<lparr>fdtab := (if sock = 42 \<or> nofile env \<le> 42 then (fdtab s)(sock := None)
                 else (fdtab s)(42 \<mapsto> length (files s), sock := None)),
       errno := (if nofile env \<le> 42 then EBADF else errno s),
       calls := calls s @ [Call_socket AF_PACKET SOCK_RAW (htons env 0x88b5),
                           Call_if_nametoindex (argv ! 1),
                           Call_setsockopt sock SOL_PACKET PACKET_ADD_MEMBERSHIP (multi idx),
                           Call_dup2 sock 42, Call_close sock,
                           Call_execvp (argv ! 2) (drop 2 argv)],
       files := files s @ [packet_socket env [multi idx]]\<rparr>"

section \<open>The runs of the program\<close>

subsection \<open>The lowest free descriptor\<close>

lemma lowest_free_log_call: "lowest_free env (log_call c s) = lowest_free env s"
  by (simp add: lowest_free_def log_call_def)

lemma lowest_free_Some:
  assumes "lowest_free env s = Some fd"
  shows "0 \<le> fd" and "fd < nofile env" and "fdtab s fd = None"
proof -
  from assms have "fd \<in> set [0..nofile env - 1] \<and> fdtab s fd = None"
    unfolding lowest_free_def by (auto simp: find_Some_iff)
  then show "0 \<le> fd" and "fd < nofile env" and "fdtab s fd = None" by auto
qed

lemma lowest_free_SomeI:
  assumes "0 \<le> k" and "k < nofile env" and "fdtab s k = None"
    and "\<And>j. 0 \<le> j \<Longrightarrow> j < k \<Longrightarrow> fdtab s j \<noteq> None"
  shows "lowest_free env s = Some k"
proof -
  have "find (\<lambda>fd. fdtab s fd = None) [0..nofile env - 1] = Some k"
    unfolding find_Some_iff
  proof (intro exI [of _ "nat k"] conjI allI impI)
    show "nat k < length [0..nofile env - 1]" using assms by simp
    show "fdtab s ([0..nofile env - 1] ! nat k) = None" using assms by simp
    show "k = [0..nofile env - 1] ! nat k" using assms by simp
    fix j assume "j < nat k"
    then show "fdtab s ([0..nofile env - 1] ! j) \<noteq> None" using assms by simp
  qed
  then show ?thesis by (simp add: lowest_free_def)
qed

lemma lowest_free_std: "3 < nofile env \<Longrightarrow> lowest_free env (start std_fds fs) = Some 3"
proof (rule lowest_free_SomeI)
  fix j :: int assume "0 \<le> j" "j < 3"
  then have "j = 0 \<or> j = 1 \<or> j = 2" by arith
  then show "fdtab (start std_fds fs) j \<noteq> None"
    by (auto simp: start_def std_fds_def)
qed (simp_all add: start_def std_fds_def)

lemma lowest_free_0_41: "42 < nofile env \<Longrightarrow> lowest_free env (start fds_0_41 fs) = Some 42"
  by (rule lowest_free_SomeI) (simp_all add: start_def fds_0_41_def)

subsection \<open>One lemma for each path through main\<close>

lemmas sys_defs = socket_def if_nametoindex_def setsockopt_def log_call_def fail_def
  perror_def fprintf_stderr_def fd_file_def packet_socket_def

lemma multi_alen_ok: "\<not> length (mr_address (multi i)) < unat (mr_alen (multi i))"
  by (simp add: multi_def)

lemma main_usage:
  "length argv < 3 \<Longrightarrow>
   main env argv s =
     (Exited 1,
      s\<lparr>stderr := stderr s @ [''Usage: '' @ argv0 argv @ '' <interface> prog args ...'' @ newline]\<rparr>)"
  by (simp add: main_def fprintf_stderr_def)

lemma main_refused:
  "3 \<le> length argv \<Longrightarrow> socket_refusal env = Some e \<Longrightarrow>
   main env argv s =
     (Exited 1,
      s\<lparr>errno := e,
        calls := calls s @ [Call_socket AF_PACKET SOCK_RAW (htons env 0x88b5)],
        stderr := stderr s @ [''cannot open socket: '' @ strerror e @ newline]\<rparr>)"
  by (simp add: main_def sys_defs)

lemma main_emfile:
  "3 \<le> length argv \<Longrightarrow> socket_refusal env = None \<Longrightarrow> lowest_free env s = None \<Longrightarrow>
   main env argv s =
     (Exited 1,
      s\<lparr>errno := EMFILE,
        calls := calls s @ [Call_socket AF_PACKET SOCK_RAW (htons env 0x88b5)],
        stderr := stderr s @ [''cannot open socket: '' @ strerror EMFILE @ newline]\<rparr>)"
  by (simp add: main_def sys_defs lowest_free_def)

lemma main_noiface:
  assumes "3 \<le> length argv" "socket_refusal env = None" "lowest_free env s = Some sock"
    "ifaces env (argv ! 1) = None"
  shows "main env argv s =
     (Exited 1,
      s\<lparr>fdtab := (fdtab s)(sock \<mapsto> length (files s)),
        files := files s @ [packet_socket env []],
        errno := ENODEV,
        calls := calls s @ [Call_socket AF_PACKET SOCK_RAW (htons env 0x88b5),
                            Call_if_nametoindex (argv ! 1)],
        stderr := stderr s @ [''cannot find interface: '' @ strerror ENODEV @ newline]\<rparr>)"
  using assms lowest_free_Some [OF assms(3)]
  by (simp add: main_def sys_defs lowest_free_log_call [unfolded log_call_def])

lemma main_iface0:
  assumes "3 \<le> length argv" "socket_refusal env = None" "lowest_free env s = Some sock"
    "ifaces env (argv ! 1) = Some 0"
  shows "main env argv s =
     (Exited 1,
      s\<lparr>fdtab := (fdtab s)(sock \<mapsto> length (files s)),
        files := files s @ [packet_socket env []],
        calls := calls s @ [Call_socket AF_PACKET SOCK_RAW (htons env 0x88b5),
                            Call_if_nametoindex (argv ! 1)],
        stderr := stderr s @ [''cannot find interface: '' @ strerror (errno s) @ newline]\<rparr>)"
  using assms lowest_free_Some [OF assms(3)]
  by (simp add: main_def sys_defs lowest_free_log_call [unfolded log_call_def])

lemma main_join_refused:
  assumes "3 \<le> length argv" "socket_refusal env = None" "lowest_free env s = Some sock"
    "ifaces env (argv ! 1) = Some idx" "idx \<noteq> 0" "mship_refusal env (multi idx) = Some e"
  shows "main env argv s =
     (Exited 1,
      s\<lparr>fdtab := (fdtab s)(sock \<mapsto> length (files s)),
        files := files s @ [packet_socket env []],
        errno := e,
        calls := calls s @ [Call_socket AF_PACKET SOCK_RAW (htons env 0x88b5),
                            Call_if_nametoindex (argv ! 1),
                            Call_setsockopt sock SOL_PACKET PACKET_ADD_MEMBERSHIP (multi idx)],
        stderr := stderr s @ [''cannot setsockopt: '' @ strerror e @ newline]\<rparr>)"
  using assms lowest_free_Some [OF assms(3)]
  by (simp add: main_def sys_defs lowest_free_log_call [unfolded log_call_def] multi_alen_ok)

lemma main_joined:
  assumes "3 \<le> length argv" "socket_refusal env = None" "lowest_free env s = Some sock"
    "ifaces env (argv ! 1) = Some idx" "idx \<noteq> 0" "mship_refusal env (multi idx) = None"
  shows "main env argv s =
     (case execvp env (argv ! 2) (drop 2 argv)
             (snd (close sock (snd (dup2 env sock 42 (joined env argv sock idx s))))) of
        (Some (img, args), s6) \<Rightarrow> (Replaced img args, s6)
      | (None, s6) \<Rightarrow> (Exited 1, perror ''exec failed'' s6))"
  using assms lowest_free_Some [OF assms(3)]
  by (simp add: main_def sys_defs lowest_free_log_call [unfolded log_call_def] joined_def
      multi_alen_ok split_def Let_def)

lemma relocate_eq:
  assumes "fdtab S sock = Some n"
  shows "snd (close sock (snd (dup2 env sock 42 S))) =
     S\<lparr>fdtab := (if sock = 42 \<or> nofile env \<le> 42 then (fdtab S)(sock := None)
                 else (fdtab S)(42 \<mapsto> n, sock := None)),
       errno := (if nofile env \<le> 42 then EBADF else errno S),
       calls := calls S @ [Call_dup2 sock 42, Call_close sock]\<rparr>"
proof (cases "sock = 42")
  case True
  with assms have "fdtab S 42 = Some n" by simp
  with True show ?thesis by (simp add: dup2_def close_def log_call_def fail_def)
next
  case False
  with assms show ?thesis by (simp add: dup2_def close_def log_call_def fail_def)
qed

lemma relocate_joined:
  "snd (close sock (snd (dup2 env sock 42 (joined env argv sock idx s)))) =
     (handed env argv sock idx s)\<lparr>calls := calls s @
        [Call_socket AF_PACKET SOCK_RAW (htons env 0x88b5),
         Call_if_nametoindex (argv ! 1),
         Call_setsockopt sock SOL_PACKET PACKET_ADD_MEMBERSHIP (multi idx),
         Call_dup2 sock 42, Call_close sock]\<rparr>"
proof -
  have "fdtab (joined env argv sock idx s) sock = Some (length (files s))"
    by (simp add: joined_def)
  from relocate_eq [OF this] show ?thesis
    by (simp add: joined_def handed_def)
qed

lemma main_handoff:
  assumes "3 \<le> length argv" "socket_refusal env = None" "lowest_free env s = Some sock"
    "ifaces env (argv ! 1) = Some idx" "idx \<noteq> 0" "mship_refusal env (multi idx) = None"
  shows "main env argv s =
     (case execvp_lookup env (errno (handed env argv sock idx s)) (argv ! 2) (drop 2 argv) of
        Inl e \<Rightarrow>
          (Exited 1,
           (handed env argv sock idx s)
             \<lparr>errno := e, stderr := stderr s @ [''exec failed: '' @ strerror e @ newline]\<rparr>)
      | Inr r \<Rightarrow> (Replaced (fst r) (snd r), handed env argv sock idx s))"
  unfolding main_joined [OF assms] relocate_joined
  by (simp add: execvp_def log_call_def perror_def fprintf_stderr_def handed_def
      split: sum.splits prod.splits)

lemma main_cases [case_names usage refused emfile noiface iface0 join_refused joined]:
  obtains "length argv < 3"
  | e where "3 \<le> length argv" "socket_refusal env = Some e"
  | "3 \<le> length argv" "socket_refusal env = None" "lowest_free env s = None"
  | sock where "3 \<le> length argv" "socket_refusal env = None" "lowest_free env s = Some sock"
      "ifaces env (argv ! 1) = None"
  | sock where "3 \<le> length argv" "socket_refusal env = None" "lowest_free env s = Some sock"
      "ifaces env (argv ! 1) = Some 0"
  | sock idx e where "3 \<le> length argv" "socket_refusal env = None"
      "lowest_free env s = Some sock" "ifaces env (argv ! 1) = Some idx" "idx \<noteq> 0"
      "mship_refusal env (multi idx) = Some e"
  | sock idx where "3 \<le> length argv" "socket_refusal env = None"
      "lowest_free env s = Some sock" "ifaces env (argv ! 1) = Some idx" "idx \<noteq> 0"
      "mship_refusal env (multi idx) = None"
proof (cases "length argv < 3")
  case True
  then show ?thesis by (rule that(1))
next
  case args: False
  show ?thesis
  proof (cases "socket_refusal env")
    case (Some e)
    with args show ?thesis by (intro that(2)) auto
  next
    case granted: None
    show ?thesis
    proof (cases "lowest_free env s")
      case None
      with args granted show ?thesis by (intro that(3)) auto
    next
      case fd: (Some sock)
      show ?thesis
      proof (cases "ifaces env (argv ! 1)")
        case None
        with args granted fd show ?thesis by (intro that(4)) auto
      next
        case (Some idx)
        show ?thesis
        proof (cases "idx = 0")
          case True
          with args granted fd Some show ?thesis by (intro that(5)) auto
        next
          case False
          with args granted fd Some show ?thesis
            by (cases "mship_refusal env (multi idx)") (auto intro: that(6) that(7))
        qed
      qed
    qed
  qed
qed

section \<open>The claims\<close>

subsection \<open>Argument validation\<close>

text \<open>
  Claim C5. An invocation with fewer than two trailing arguments (an argument vector of
  fewer than three entries) ends with exit status 1, having written the usage line to the
  error stream; no call has been issued, so no socket has been created, and the
  descriptor table and the open files are those of the start.
\<close>

theorem usage_failure:
  assumes "length argv < 3"
  shows "main env argv (start fdt fs) =
           (Exited 1,
            (start fdt fs)
              \<lparr>stderr := [''Usage: '' @ argv0 argv @ '' <interface> prog args ...'' @ newline]\<rparr>)
         \<and> calls (snd (main env argv (start fdt fs))) = []
         \<and> fdtab (snd (main env argv (start fdt fs))) = fdt
         \<and> files (snd (main env argv (start fdt fs))) = fs"
  using assms by (simp add: main_usage start_def)

theorem usage_failure_witness:
  "length [''opensock'', ''eth0''] < 3
   \<and> main host [''opensock'', ''eth0''] (start std_fds [Other_file]) =
       (Exited 1,
        \<lparr>fdtab = std_fds, files = [Other_file], errno = E_OK, calls = [],
         stderr = [''Usage: opensock <interface> prog args ...'' @ newline]\<rparr>)"
  using usage_failure [where argv = "[''opensock'', ''eth0'']" and env = host
      and fdt = std_fds and fs = "[Other_file]"]
  by (simp add: start_def argv0_def)

subsection \<open>The socket request\<close>

lemma stored_bytes_htons: "stored_bytes env (htons env 0x88b5) = [0x88, 0xb5]"
  by (simp add: stored_bytes_def htons_def)

lemma htons_host: "htons host 0x88b5 = 0xb588"
  by (simp add: htons_def host_def)

text \<open>
  Claim C3. A run that passes argument validation issues exactly one socket request, as
  its first call: for the packet family, of raw type, with the protocol argument
  \<^verbatim>\<open>htons(0x88b5)\<close>, whose two bytes in memory are \<open>0x88\<close>, \<open>0xb5\<close>, the EtherType in
  network byte order, on a host of either byte order.
\<close>

theorem socket_request:
  assumes "3 \<le> length argv"
  shows "filter is_socket (calls (snd (main env argv (start fdt fs)))) =
           [Call_socket AF_PACKET SOCK_RAW (htons env 0x88b5)]
         \<and> hd (calls (snd (main env argv (start fdt fs)))) =
             Call_socket AF_PACKET SOCK_RAW (htons env 0x88b5)
         \<and> stored_bytes env (htons env 0x88b5) = [0x88, 0xb5]"
proof (cases rule: main_cases [where argv = argv and env = env and s = "start fdt fs"])
  case usage
  with assms show ?thesis by simp
next
  case (refused e)
  then show ?thesis by (simp add: main_refused start_def stored_bytes_htons)
next
  case emfile
  then show ?thesis by (simp add: main_emfile start_def stored_bytes_htons)
next
  case (noiface sock)
  then show ?thesis by (simp add: main_noiface start_def stored_bytes_htons)
next
  case (iface0 sock)
  then show ?thesis by (simp add: main_iface0 start_def stored_bytes_htons)
next
  case (join_refused sock idx e)
  then show ?thesis by (simp add: main_join_refused start_def stored_bytes_htons)
next
  case (joined sock idx)
  then show ?thesis
    by (simp add: main_handoff handed_def start_def stored_bytes_htons split: sum.splits)
qed

theorem socket_request_witness:
  "3 \<le> length echo_argv
   \<and> filter is_socket (calls (snd (main host echo_argv (start std_fds [Other_file])))) =
       [Call_socket AF_PACKET SOCK_RAW 0xb588]
   \<and> stored_bytes host 0xb588 = [0x88, 0xb5]"
  using socket_request [where argv = echo_argv and env = host and fdt = std_fds
      and fs = "[Other_file]"]
  by (simp add: echo_argv_def htons_host)

subsection \<open>Order of the first two steps\<close>

lemma socket_fst:
  "fst (socket env fam ty proto s) =
     (case socket_refusal env of
        Some e \<Rightarrow> - 1
      | None \<Rightarrow> (case lowest_free env s of None \<Rightarrow> - 1 | Some fd \<Rightarrow> fd))"
  by (simp add: socket_def fail_def Let_def lowest_free_log_call split: option.splits)

lemma socket_granted:
  assumes "0 \<le> fst (socket env fam ty proto s)"
  shows "socket_refusal env = None"
    and "lowest_free env s = Some (fst (socket env fam ty proto s))"
  using assms by (auto simp: socket_fst split: option.splits)

lemma run_host_no_raw:
  "main (host\<lparr>socket_refusal := Some EPERM\<rparr>) echo_argv (start std_fds [Other_file]) =
     (Exited 1,
      \<lparr>fdtab = std_fds, files = [Other_file], errno = EPERM,
       calls = [Call_socket AF_PACKET SOCK_RAW 0xb588],
       stderr = [''cannot open socket: Operation not permitted'' @ newline]\<rparr>)"
proof -
  have "htons (host\<lparr>socket_refusal := Some EPERM\<rparr>) 0x88b5 = 0xb588"
    by (simp add: htons_def host_def)
  then show ?thesis
    by (simp add: main_refused [where e = EPERM] echo_argv_def start_def)
qed

lemma lookup_echo:
  assumes "exec_probe env = exec_probe host" and "search_path env = search_path host"
  shows "execvp_lookup env cur ''echo'' args = Inr (''/bin/echo'', args)"
  using assms
  by (simp add: execvp_lookup_def host_def try_exec_def path_candidate_def goes_on_def)

lemma run_host_echo:
  "main host echo_argv (start std_fds [Other_file]) =
     (Replaced ''/bin/echo'' [''echo'', ''hello''],
      \<lparr>fdtab = std_fds(42 \<mapsto> 1), files = [Other_file, packet_socket host [multi 2]],
       errno = E_OK,
       calls = [Call_socket AF_PACKET SOCK_RAW 0xb588, Call_if_nametoindex ''eth0'',
                Call_setsockopt 3 SOL_PACKET PACKET_ADD_MEMBERSHIP (multi 2),
                Call_dup2 3 42, Call_close 3, Call_execvp ''echo'' [''echo'', ''hello'']],
       stderr = []\<rparr>)"
proof -
  have "lowest_free host (start std_fds [Other_file]) = Some 3"
    by (rule lowest_free_std) (simp add: host_def)
  moreover have "socket_refusal host = None" "ifaces host ''eth0'' = Some 2"
    "mship_refusal host (multi 2) = None" "\<And>cur args. execvp_lookup host cur ''echo'' args = Inr (''/bin/echo'', args)"
    "\<not> nofile host \<le> 42"
    by (simp_all add: host_def lookup_echo)
  moreover have "std_fds(42 \<mapsto> Suc 0, 3 := None) = std_fds(42 \<mapsto> Suc 0)"
    by (rule ext) (simp add: std_fds_def)
  ultimately show ?thesis
    by (simp add: main_handoff [where sock = 3 and idx = 2] echo_argv_def)
      (simp add: handed_def start_def htons_host)
qed

text \<open>
  Claim C7. In every run, the first interface resolution, if there is one, comes after a
  socket request. A run with enough arguments whose socket request is refused (the call
  returns a negative value) exits with status 1 and the message of \<^verbatim>\<open>perror\<close> for
  \<^verbatim>\<open>cannot open socket\<close>, and the socket request is the only call it has issued.
\<close>

theorem socket_before_interface:
  "(list_ex is_if_nametoindex (calls (snd (main env argv (start fdt fs)))) \<longrightarrow>
      list_ex is_socket
        (takeWhile (\<lambda>c. \<not> is_if_nametoindex c) (calls (snd (main env argv (start fdt fs))))))
   \<and> (3 \<le> length argv
        \<and> fst (socket env AF_PACKET SOCK_RAW (htons env 0x88b5) (start fdt fs)) < 0 \<longrightarrow>
      fst (main env argv (start fdt fs)) = Exited 1
      \<and> stderr (snd (main env argv (start fdt fs))) =
          [''cannot open socket: '' @ strerror (errno (snd (main env argv (start fdt fs))))
             @ newline]
      \<and> calls (snd (main env argv (start fdt fs))) =
          [Call_socket AF_PACKET SOCK_RAW (htons env 0x88b5)])"
proof (cases rule: main_cases [where argv = argv and env = env and s = "start fdt fs"])
  case usage
  then show ?thesis by (simp add: main_usage start_def)
next
  case (refused e)
  then show ?thesis by (simp add: main_refused start_def)
next
  case emfile
  then show ?thesis by (simp add: main_emfile start_def)
next
  case (noiface sock)
  with lowest_free_Some(1) [OF noiface(3)] show ?thesis
    by (simp add: main_noiface socket_fst) (simp add: start_def)
next
  case (iface0 sock)
  with lowest_free_Some(1) [OF iface0(3)] show ?thesis
    by (simp add: main_iface0 socket_fst) (simp add: start_def)
next
  case (join_refused sock idx e)
  with lowest_free_Some(1) [OF join_refused(3)] show ?thesis
    by (simp add: main_join_refused socket_fst) (simp add: start_def)
next
  case (joined sock idx)
  with lowest_free_Some(1) [OF joined(3)] show ?thesis
    by (simp add: main_handoff socket_fst split: sum.splits) (simp add: handed_def start_def)
qed

theorem socket_before_interface_witness:
  "fst (socket (host\<lparr>socket_refusal := Some EPERM\<rparr>) AF_PACKET SOCK_RAW
          (htons (host\<lparr>socket_refusal := Some EPERM\<rparr>) 0x88b5) (start std_fds [Other_file])) < 0
   \<and> fst (main (host\<lparr>socket_refusal := Some EPERM\<rparr>) echo_argv (start std_fds [Other_file])) =
       Exited 1
   \<and> stderr (snd (main (host\<lparr>socket_refusal := Some EPERM\<rparr>) echo_argv
                    (start std_fds [Other_file]))) =
       [''cannot open socket: Operation not permitted'' @ newline]
   \<and> calls (snd (main (host\<lparr>socket_refusal := Some EPERM\<rparr>) echo_argv
                   (start std_fds [Other_file]))) =
       [Call_socket AF_PACKET SOCK_RAW 0xb588]
   \<and> list_ex is_if_nametoindex (calls (snd (main host echo_argv (start std_fds [Other_file]))))
   \<and> list_ex is_socket
        (takeWhile (\<lambda>c. \<not> is_if_nametoindex c)
           (calls (snd (main host echo_argv (start std_fds [Other_file])))))"
  using socket_before_interface [where env = "host\<lparr>socket_refusal := Some EPERM\<rparr>"
      and argv = echo_argv and fdt = std_fds and fs = "[Other_file]"]
    socket_before_interface [where env = host and argv = echo_argv and fdt = std_fds
      and fs = "[Other_file]"]
  by (simp add: run_host_no_raw run_host_echo socket_fst)

subsection \<open>Interface resolution\<close>

lemma run_host_eth1:
  "main host [''opensock'', ''eth1'', ''echo''] (start std_fds [Other_file]) =
     (Exited 1,
      \<lparr>fdtab = std_fds(3 \<mapsto> 1), files = [Other_file, packet_socket host []], errno = ENODEV,
       calls = [Call_socket AF_PACKET SOCK_RAW 0xb588, Call_if_nametoindex ''eth1''],
       stderr = [''cannot find interface: No such device'' @ newline]\<rparr>)"
proof -
  have "lowest_free host (start std_fds [Other_file]) = Some 3"
    by (rule lowest_free_std) (simp add: host_def)
  moreover have "socket_refusal host = None" "ifaces host ''eth1'' = None"
    by (simp_all add: host_def)
  ultimately show ?thesis
    by (simp add: main_noiface [where sock = 3] htons_host) (simp add: start_def)
qed

text \<open>
  Claim C6. When an interface name is given and the kernel does not know it, the run
  exits with status 1 after one line on the error stream and never calls \<^verbatim>\<open>execvp\<close>;
  if it got as far as resolving the name, the line is the message of \<^verbatim>\<open>perror\<close> for
  \<^verbatim>\<open>cannot find interface\<close>.
\<close>

theorem unknown_interface:
  assumes "1 < length argv" and "ifaces env (argv ! 1) = None"
  shows "fst (main env argv (start fdt fs)) = Exited 1
         \<and> length (stderr (snd (main env argv (start fdt fs)))) = 1
         \<and> \<not> list_ex is_execvp (calls (snd (main env argv (start fdt fs))))
         \<and> (list_ex is_if_nametoindex (calls (snd (main env argv (start fdt fs)))) \<longrightarrow>
              stderr (snd (main env argv (start fdt fs))) =
                [''cannot find interface: '' @ strerror ENODEV @ newline])"
proof (cases rule: main_cases [where argv = argv and env = env and s = "start fdt fs"])
  case usage
  then show ?thesis by (simp add: main_usage start_def)
next
  case (refused e)
  then show ?thesis by (simp add: main_refused start_def)
next
  case emfile
  then show ?thesis by (simp add: main_emfile start_def)
next
  case (noiface sock)
  then show ?thesis by (simp add: main_noiface start_def)
next
  case (iface0 sock)
  with assms show ?thesis by simp
next
  case (join_refused sock idx e)
  with assms show ?thesis by simp
next
  case (joined sock idx)
  with assms show ?thesis by simp
qed

theorem unknown_interface_witness:
  "1 < length [''opensock'', ''eth1'', ''echo'']
   \<and> ifaces host ([''opensock'', ''eth1'', ''echo''] ! 1) = None
   \<and> fst (main host [''opensock'', ''eth1'', ''echo''] (start std_fds [Other_file])) = Exited 1
   \<and> list_ex is_if_nametoindex
        (calls (snd (main host [''opensock'', ''eth1'', ''echo''] (start std_fds [Other_file]))))
   \<and> stderr (snd (main host [''opensock'', ''eth1'', ''echo''] (start std_fds [Other_file]))) =
       [''cannot find interface: No such device'' @ newline]"
  using unknown_interface [where env = host and argv = "[''opensock'', ''eth1'', ''echo'']"
      and fdt = std_fds and fs = "[Other_file]"]
  by (simp add: run_host_eth1) (simp add: host_def)

subsection \<open>The group join\<close>

lemma run_host_no_join:
  "main (host\<lparr>mship_refusal := \<lambda>mr. Some ENODEV\<rparr>) echo_argv (start std_fds [Other_file]) =
     (Exited 1,
      \<lparr>fdtab = std_fds(3 \<mapsto> 1),
       files = [Other_file, packet_socket (host\<lparr>mship_refusal := \<lambda>mr. Some ENODEV\<rparr>) []],
       errno = ENODEV,
       calls = [Call_socket AF_PACKET SOCK_RAW 0xb588, Call_if_nametoindex ''eth0'',
                Call_setsockopt 3 SOL_PACKET PACKET_ADD_MEMBERSHIP (multi 2)],
       stderr = [''cannot setsockopt: No such device'' @ newline]\<rparr>)"
proof -
  let ?env = "host\<lparr>mship_refusal := \<lambda>mr. Some ENODEV\<rparr>"
  have "lowest_free ?env (start std_fds [Other_file]) = Some 3"
    by (rule lowest_free_std) (simp add: host_def)
  moreover have "socket_refusal ?env = None" "ifaces ?env ''eth0'' = Some 2"
    "mship_refusal ?env (multi 2) = Some ENODEV" "htons ?env 0x88b5 = 0xb588"
    by (simp_all add: host_def htons_def)
  ultimately show ?thesis
    by (simp add: main_join_refused [where sock = 3 and idx = 2 and e = ENODEV] echo_argv_def)
      (simp add: start_def)
qed

text \<open>
  Claim C2. When a run issues a \<^verbatim>\<open>setsockopt\<close> call, it issues exactly one; the
  descriptor is the one the socket request returned; level and option are those of a
  packet membership-add; the request carries the index that the interface name resolved
  to, the link-layer multicast type, and an address of length 6 that is
  \<open>71:b3:d5:3a:6f:00\<close> (the source's initialiser, the rest of the array being zero). If
  the kernel refuses the request, the run exits with status 1 after the message of
  \<^verbatim>\<open>perror\<close> for \<^verbatim>\<open>cannot setsockopt\<close>, and the \<^verbatim>\<open>setsockopt\<close> call is its last:
  no \<^verbatim>\<open>dup2\<close>, \<^verbatim>\<open>close\<close> or \<^verbatim>\<open>execvp\<close> follows.
\<close>

theorem group_join_request:
  assumes "Call_setsockopt fd lvl opt mr \<in> set (calls (snd (main env argv (start fdt fs))))"
  shows "filter is_setsockopt (calls (snd (main env argv (start fdt fs)))) =
           [Call_setsockopt fd lvl opt mr]
         \<and> fd = fst (socket env AF_PACKET SOCK_RAW (htons env 0x88b5) (start fdt fs))
         \<and> 0 \<le> fd
         \<and> lvl = SOL_PACKET \<and> opt = PACKET_ADD_MEMBERSHIP
         \<and> ifaces env (argv ! 1) = Some (mr_ifindex mr)
         \<and> mr_type mr = PACKET_MR_MULTICAST
         \<and> mr_alen mr = 6
         \<and> take (unat (mr_alen mr)) (mr_address mr) = [0x71, 0xb3, 0xd5, 0x3a, 0x6f, 0x00]
         \<and> mr = multi (mr_ifindex mr)
         \<and> (mship_refusal env mr \<noteq> None \<longrightarrow>
              fst (main env argv (start fdt fs)) = Exited 1
              \<and> mship_refusal env mr = Some (errno (snd (main env argv (start fdt fs))))
              \<and> stderr (snd (main env argv (start fdt fs))) =
                  [''cannot setsockopt: ''
                     @ strerror (errno (snd (main env argv (start fdt fs)))) @ newline]
              \<and> last (calls (snd (main env argv (start fdt fs)))) =
                  Call_setsockopt fd lvl opt mr
              \<and> \<not> list_ex is_dup2 (calls (snd (main env argv (start fdt fs))))
              \<and> \<not> list_ex is_close (calls (snd (main env argv (start fdt fs))))
              \<and> \<not> list_ex is_execvp (calls (snd (main env argv (start fdt fs)))))"
proof (cases rule: main_cases [where argv = argv and env = env and s = "start fdt fs"])
  case usage
  with assms show ?thesis by (simp add: main_usage start_def)
next
  case (refused e)
  with assms show ?thesis by (simp add: main_refused start_def)
next
  case emfile
  with assms show ?thesis by (simp add: main_emfile start_def)
next
  case (noiface sock)
  with assms show ?thesis by (simp add: main_noiface start_def)
next
  case (iface0 sock)
  with assms show ?thesis by (simp add: main_iface0 start_def)
next
  case (join_refused sock idx e)
  from assms join_refused have eq: "fd = sock" "lvl = SOL_PACKET" "opt = PACKET_ADD_MEMBERSHIP"
    "mr = multi idx"
    by (simp_all add: main_join_refused start_def)
  have mr: "mr_ifindex (multi idx) = idx" "mr_type (multi idx) = PACKET_MR_MULTICAST"
    "mr_alen (multi idx) = 6"
    "take 6 (mr_address (multi idx)) = [0x71, 0xb3, 0xd5, 0x3a, 0x6f, 0x00]"
    by (simp_all add: multi_def)
  from join_refused lowest_free_Some(1) [OF join_refused(3)] show ?thesis
    unfolding eq by (simp add: main_join_refused socket_fst mr) (simp add: start_def)
next
  case (joined sock idx)
  from assms joined have eq: "fd = sock" "lvl = SOL_PACKET" "opt = PACKET_ADD_MEMBERSHIP"
    "mr = multi idx"
    by (simp_all add: main_handoff handed_def start_def split: sum.splits)
  have mr: "mr_ifindex (multi idx) = idx" "mr_type (multi idx) = PACKET_MR_MULTICAST"
    "mr_alen (multi idx) = 6"
    "take 6 (mr_address (multi idx)) = [0x71, 0xb3, 0xd5, 0x3a, 0x6f, 0x00]"
    by (simp_all add: multi_def)
  from joined lowest_free_Some(1) [OF joined(3)] show ?thesis
    unfolding eq
    by (simp add: main_handoff socket_fst mr split: sum.splits) (simp add: handed_def start_def)
qed

theorem group_join_request_witness:
  "Call_setsockopt 3 SOL_PACKET PACKET_ADD_MEMBERSHIP (multi 2)
     \<in> set (calls (snd (main (host\<lparr>mship_refusal := \<lambda>mr. Some ENODEV\<rparr>) echo_argv
                          (start std_fds [Other_file]))))
   \<and> mship_refusal (host\<lparr>mship_refusal := \<lambda>mr. Some ENODEV\<rparr>) (multi 2) = Some ENODEV
   \<and> ifaces (host\<lparr>mship_refusal := \<lambda>mr. Some ENODEV\<rparr>) (echo_argv ! 1) = Some 2
   \<and> fst (main (host\<lparr>mship_refusal := \<lambda>mr. Some ENODEV\<rparr>) echo_argv
             (start std_fds [Other_file])) = Exited 1
   \<and> stderr (snd (main (host\<lparr>mship_refusal := \<lambda>mr. Some ENODEV\<rparr>) echo_argv
                    (start std_fds [Other_file]))) =
       [''cannot setsockopt: No such device'' @ newline]"
  using group_join_request [where env = "host\<lparr>mship_refusal := \<lambda>mr. Some ENODEV\<rparr>"
      and argv = echo_argv and fdt = std_fds and fs = "[Other_file]" and fd = 3
      and lvl = SOL_PACKET and opt = PACKET_ADD_MEMBERSHIP and mr = "multi 2"]
  by (simp add: run_host_no_join) (simp add: multi_def)

subsection \<open>Image replacement\<close>











subsection \<open>Failures after the socket is open\<close>

text \<open>
  Claim C10. Take a run with enough arguments whose socket request returned a descriptor
  \<open>sock\<close>, and in which the interface name is unknown, or resolves to 0, or resolves to
  an index for which the kernel refuses the membership. The run exits with status 1
  without having called \<^verbatim>\<open>close\<close> (or \<^verbatim>\<open>dup2\<close>), and when \<^verbatim>\<open>main\<close> returns, \<open>sock\<close> is
  still an open descriptor of the packet socket, which has no membership.
\<close>

theorem socket_left_open_on_failure:
  assumes "3 \<le> length argv"
    and "sock = fst (socket env AF_PACKET SOCK_RAW (htons env 0x88b5) (start fdt fs))"
    and "0 \<le> sock"
    and "ifaces env (argv ! 1) = None \<or> ifaces env (argv ! 1) = Some 0
         \<or> (\<exists>idx e. ifaces env (argv ! 1) = Some idx \<and> mship_refusal env (multi idx) = Some e)"
  shows "fst (main env argv (start fdt fs)) = Exited 1
         \<and> \<not> list_ex is_close (calls (snd (main env argv (start fdt fs))))
         \<and> \<not> list_ex is_dup2 (calls (snd (main env argv (start fdt fs))))
         \<and> fdtab (snd (main env argv (start fdt fs))) = fdt(sock \<mapsto> length fs)
         \<and> fd_file (snd (main env argv (start fdt fs))) sock = Some (packet_socket env [])"
proof -
  from assms(2,3) have granted: "socket_refusal env = None"
    and fd: "lowest_free env (start fdt fs) = Some sock"
    using socket_granted [of env AF_PACKET SOCK_RAW "htons env 0x88b5" "start fdt fs"]
    by simp_all
  show ?thesis
  proof (cases rule: main_cases [where argv = argv and env = env and s = "start fdt fs"])
    case usage
    with assms show ?thesis by simp
  next
    case (refused e)
    with granted show ?thesis by simp
  next
    case emfile
    with fd show ?thesis by simp
  next
    case (noiface sock')
    with fd have "sock' = sock" by simp
    with noiface show ?thesis
      by (simp add: main_noiface fd_file_def) (simp add: start_def)
  next
    case (iface0 sock')
    with fd have "sock' = sock" by simp
    with iface0 show ?thesis
      by (simp add: main_iface0 fd_file_def) (simp add: start_def)
  next
    case (join_refused sock' idx e)
    with fd have "sock' = sock" by simp
    with join_refused show ?thesis
      by (simp add: main_join_refused fd_file_def) (simp add: start_def)
  next
    case (joined sock' idx)
    with assms(4) show ?thesis by auto
  qed
qed

theorem socket_left_open_on_failure_witness:
  "3 \<le> length [''opensock'', ''eth1'', ''echo'']
   \<and> fst (socket host AF_PACKET SOCK_RAW (htons host 0x88b5) (start std_fds [Other_file])) = 3
   \<and> ifaces host ([''opensock'', ''eth1'', ''echo''] ! 1) = None
   \<and> fst (main host [''opensock'', ''eth1'', ''echo''] (start std_fds [Other_file])) = Exited 1
   \<and> fd_file (snd (main host [''opensock'', ''eth1'', ''echo''] (start std_fds [Other_file]))) 3 =
       Some (packet_socket host [])"
proof -
  have fd: "lowest_free host (start std_fds [Other_file]) = Some 3"
    by (rule lowest_free_std) (simp add: host_def)
  have sock: "fst (socket host AF_PACKET SOCK_RAW (htons host 0x88b5) (start std_fds [Other_file])) = 3"
  proof -
    have "socket_refusal host = None" by (simp add: host_def)
    then show ?thesis by (simp add: socket_fst fd)
  qed
  have iface: "ifaces host ([''opensock'', ''eth1'', ''echo''] ! 1) = None"
    by (simp add: host_def)
  from socket_left_open_on_failure [where env = host
      and argv = "[''opensock'', ''eth1'', ''echo'']" and fdt = std_fds and fs = "[Other_file]"
      and sock = 3] sock iface
  show ?thesis by simp
qed

subsection \<open>Relocation to descriptor 42\<close>

text \<open>
  When the socket's descriptor is not 42 and 42 is within the descriptor limit, a run
  that reaches \<^verbatim>\<open>execvp\<close> does so with descriptor 42 as the only descriptor of the
  socket, which holds the membership, and with the original descriptor closed. Every
  descriptor of the start is assumed to refer to an open file of the start, and a
  descriptor other than the socket's to be free, the one that the C library needs
  inside \<^verbatim>\<open>if_nametoindex\<close>.
\<close>

lemma relocated_when_distinct:
  assumes "3 \<le> length argv" "socket_refusal env = None"
    and "lowest_free env (start fdt fs) = Some sock"
    and "ifaces env (argv ! 1) = Some idx" "idx \<noteq> 0" "mship_refusal env (multi idx) = None"
    and "sock \<noteq> 42" "42 < nofile env"
    and "\<forall>fd i. fdt fd = Some i \<longrightarrow> i < length fs"
    and "\<exists>fd. 0 \<le> fd \<and> fd < nofile env \<and> fd \<noteq> sock \<and> fdt fd = None"
  shows "fdtab (snd (main env argv (start fdt fs))) 42 = Some (length fs)"
    and "fdtab (snd (main env argv (start fdt fs))) sock = None"
    and "fdtab (snd (main env argv (start fdt fs))) fd = Some (length fs) \<longleftrightarrow> fd = 42"
    and "fd_file (snd (main env argv (start fdt fs))) 42 = Some (packet_socket env [multi idx])"
proof -
  let ?s = "snd (main env argv (start fdt fs))"
  from assms(1-6) have tab: "fdtab ?s = fdt(42 \<mapsto> length fs, sock := None)"
    and fls: "files ?s = fs @ [packet_socket env [multi idx]]"
    using assms(7,8)
    by (simp_all add: main_handoff handed_def start_def split: sum.splits)
  from tab assms(7) show "fdtab ?s 42 = Some (length fs)" by simp
  from tab show "fdtab ?s sock = None" by simp
  from tab assms(7,9) show "fdtab ?s fd = Some (length fs) \<longleftrightarrow> fd = 42" by auto
  from tab fls assms(7) show "fd_file ?s 42 = Some (packet_socket env [multi idx])"
    by (simp add: fd_file_def)
qed

lemma run_host_echo_42:
  "main host echo_argv (start fds_0_41 [Other_file]) =
     (Replaced ''/bin/echo'' [''echo'', ''hello''],
      \<lparr>fdtab = fds_0_41, files = [Other_file, packet_socket host [multi 2]],
       errno = E_OK,
       calls = [Call_socket AF_PACKET SOCK_RAW 0xb588, Call_if_nametoindex ''eth0'',
                Call_setsockopt 42 SOL_PACKET PACKET_ADD_MEMBERSHIP (multi 2),
                Call_dup2 42 42, Call_close 42, Call_execvp ''echo'' [''echo'', ''hello'']],
       stderr = []\<rparr>)"
proof -
  have "lowest_free host (start fds_0_41 [Other_file]) = Some 42"
    by (rule lowest_free_0_41) (simp add: host_def)
  moreover have "socket_refusal host = None" "ifaces host ''eth0'' = Some 2"
    "mship_refusal host (multi 2) = None" "\<And>cur args. execvp_lookup host cur ''echo'' args = Inr (''/bin/echo'', args)"
    "\<not> nofile host \<le> 42"
    by (simp_all add: host_def lookup_echo)
  moreover have "fds_0_41(42 := None) = fds_0_41"
    by (rule ext) (simp add: fds_0_41_def)
  ultimately show ?thesis
    by (simp add: main_handoff [where sock = 42 and idx = 2] echo_argv_def)
      (simp add: handed_def start_def htons_host)
qed

text \<open>
  Claim C1, on an input where it fails. The parent leaves descriptors 0 to 41 open, so
  the socket is created at descriptor 42. The run reaches image replacement: the image is
  replaced by \<^verbatim>\<open>/bin/echo\<close>. At that moment descriptor 42 is closed and no descriptor
  refers to the packet socket, although the socket exists and holds the membership:
  \<^verbatim>\<open>dup2(42, 42)\<close> changed nothing and \<^verbatim>\<open>close(42)\<close> closed the only descriptor.
\<close>

theorem relocation_from_42_closes_socket:
  "fst (main host echo_argv (start fds_0_41 [Other_file])) =
     Replaced ''/bin/echo'' [''echo'', ''hello'']
   \<and> files (snd (main host echo_argv (start fds_0_41 [Other_file]))) =
       [Other_file, packet_socket host [multi 2]]
   \<and> fdtab (snd (main host echo_argv (start fds_0_41 [Other_file]))) 42 = None
   \<and> (\<forall>fd. fdtab (snd (main host echo_argv (start fds_0_41 [Other_file]))) fd \<noteq> Some 1)
   \<and> drop 3 (calls (snd (main host echo_argv (start fds_0_41 [Other_file])))) =
       [Call_dup2 42 42, Call_close 42, Call_execvp ''echo'' [''echo'', ''hello'']]"
  by (simp add: run_host_echo_42) (simp add: fds_0_41_def)

text \<open>
  Claim C9. Take a run in which the socket request returned descriptor 42 and which
  reaches the call of \<^verbatim>\<open>dup2\<close>, from a start where every descriptor refers to an open
  file of the start. Then \<^verbatim>\<open>dup2(42, 42)\<close> on a state where 42 is open returns 42 and
  changes nothing but the trace; after the socket request, 42 is the only descriptor of
  the new socket; the run goes on with \<^verbatim>\<open>close(42)\<close> and the call of \<^verbatim>\<open>execvp\<close>; and in
  its final state the descriptor table is the table of the start, in which 42 is
  closed, and no descriptor refers to the socket.
\<close>

theorem socket_allocated_at_42:
  assumes "fst (socket env AF_PACKET SOCK_RAW (htons env 0x88b5) (start fdt fs)) = 42"
    and "list_ex is_dup2 (calls (snd (main env argv (start fdt fs))))"
    and "\<forall>fd i. fdt fd = Some i \<longrightarrow> i < length fs"
  shows "(\<forall>S. fdtab S 42 \<noteq> None \<longrightarrow> dup2 env 42 42 S = (42, log_call (Call_dup2 42 42) S))
         \<and> fdtab (snd (socket env AF_PACKET SOCK_RAW (htons env 0x88b5) (start fdt fs))) =
             fdt(42 \<mapsto> length fs)
         \<and> (\<forall>fd. (fdt(42 \<mapsto> length fs)) fd = Some (length fs) \<longleftrightarrow> fd = 42)
         \<and> drop 3 (calls (snd (main env argv (start fdt fs)))) =
             [Call_dup2 42 42, Call_close 42, Call_execvp (argv ! 2) (drop 2 argv)]
         \<and> fdtab (snd (main env argv (start fdt fs))) = fdt
         \<and> fdt 42 = None
         \<and> (\<forall>fd. fdtab (snd (main env argv (start fdt fs))) fd \<noteq> Some (length fs))
         \<and> (\<exists>idx. ifaces env (argv ! 1) = Some idx
               \<and> files (snd (main env argv (start fdt fs))) =
                   fs @ [packet_socket env [multi idx]])"
proof -
  from assms(1) have granted: "socket_refusal env = None"
    and fd: "lowest_free env (start fdt fs) = Some 42"
    using socket_granted [of env AF_PACKET SOCK_RAW "htons env 0x88b5" "start fdt fs"]
    by simp_all
  from lowest_free_Some [OF fd] have lim: "42 < nofile env" and free: "fdt 42 = None"
    by (simp_all add: start_def)
  from free have same: "fdt(42 := None) = fdt"
    by (rule_tac ext) simp
  from assms(3) have fresh: "fdt x \<noteq> Some (length fs)" for x
    by (metis less_irrefl)
  have noop: "\<forall>S. fdtab S 42 \<noteq> None \<longrightarrow> dup2 env 42 42 S = (42, log_call (Call_dup2 42 42) S)"
    using lim by (auto simp: dup2_def log_call_def)
  have after: "fdtab (snd (socket env AF_PACKET SOCK_RAW (htons env 0x88b5) (start fdt fs))) =
      fdt(42 \<mapsto> length fs)"
    using granted fd
    by (simp add: socket_def lowest_free_log_call Let_def) (simp add: log_call_def start_def)
  have only: "\<forall>fd. (fdt(42 \<mapsto> length fs)) fd = Some (length fs) \<longleftrightarrow> fd = 42"
    using fresh by simp
  show ?thesis
  proof (cases rule: main_cases [where argv = argv and env = env and s = "start fdt fs"])
    case usage
    with assms(2) show ?thesis by (simp add: main_usage start_def)
  next
    case (refused e)
    with granted show ?thesis by simp
  next
    case emfile
    with fd show ?thesis by simp
  next
    case (noiface sock)
    with assms(2) show ?thesis by (simp add: main_noiface start_def)
  next
    case (iface0 sock)
    with assms(2) show ?thesis by (simp add: main_iface0 start_def)
  next
    case (join_refused sock idx e)
    with assms(2) show ?thesis by (simp add: main_join_refused start_def)
  next
    case (joined sock idx)
    with fd have "sock = 42" by simp
    with joined have run: "drop 3 (calls (snd (main env argv (start fdt fs)))) =
          [Call_dup2 42 42, Call_close 42, Call_execvp (argv ! 2) (drop 2 argv)]"
        "fdtab (snd (main env argv (start fdt fs))) = fdt"
        "files (snd (main env argv (start fdt fs))) = fs @ [packet_socket env [multi idx]]"
      by (simp_all add: main_handoff handed_def start_def same split: sum.splits)
    from noop after only run free fresh joined(4) show ?thesis by simp
  qed
qed

theorem socket_allocated_at_42_witness:
  "fst (socket host AF_PACKET SOCK_RAW (htons host 0x88b5) (start fds_0_41 [Other_file])) = 42
   \<and> list_ex is_dup2 (calls (snd (main host echo_argv (start fds_0_41 [Other_file]))))
   \<and> dup2 host 42 42 (start (fds_0_41(42 \<mapsto> 1)) [Other_file]) =
       (42, log_call (Call_dup2 42 42) (start (fds_0_41(42 \<mapsto> 1)) [Other_file]))
   \<and> fdtab (snd (main host echo_argv (start fds_0_41 [Other_file]))) = fds_0_41
   \<and> fds_0_41 42 = None"
proof -
  have fd: "lowest_free host (start fds_0_41 [Other_file]) = Some 42"
    by (rule lowest_free_0_41) (simp add: host_def)
  have sock: "fst (socket host AF_PACKET SOCK_RAW (htons host 0x88b5)
      (start fds_0_41 [Other_file])) = 42"
  proof -
    have "socket_refusal host = None" by (simp add: host_def)
    then show ?thesis by (simp add: socket_fst fd)
  qed
  have reach: "list_ex is_dup2 (calls (snd (main host echo_argv (start fds_0_41 [Other_file]))))"
    by (simp add: run_host_echo_42)
  have wf: "\<forall>fd i. fds_0_41 fd = Some i \<longrightarrow> i < length [Other_file]"
    by (simp add: fds_0_41_def)
  have "fdtab (start (fds_0_41(42 \<mapsto> 1)) [Other_file]) 42 \<noteq> None"
    by (simp add: start_def)
  with socket_allocated_at_42 [OF sock reach wf] sock reach show ?thesis
    by simp
qed

subsection \<open>Errors that are not checked\<close>

text \<open>Every exit of the program itself has status 1 and follows one line of diagnostic.\<close>

lemma every_exit_is_status_1:
  assumes "fst (main env argv (start fdt fs)) = Exited r"
  shows "r = 1" and "length (stderr (snd (main env argv (start fdt fs)))) = 1"
proof -
  have "r = 1 \<and> length (stderr (snd (main env argv (start fdt fs)))) = 1"
  proof (cases rule: main_cases [where argv = argv and env = env and s = "start fdt fs"])
    case usage
    with assms show ?thesis by (simp add: main_usage start_def)
  next
    case (refused e)
    with assms show ?thesis by (simp add: main_refused start_def)
  next
    case emfile
    with assms show ?thesis by (simp add: main_emfile start_def)
  next
    case (noiface sock)
    with assms show ?thesis by (simp add: main_noiface start_def)
  next
    case (iface0 sock)
    with assms show ?thesis by (simp add: main_iface0 start_def)
  next
    case (join_refused sock idx e)
    with assms show ?thesis by (simp add: main_join_refused start_def)
  next
    case (joined sock idx)
    show ?thesis
    proof (cases "execvp_lookup env (errno (handed env argv sock idx (start fdt fs)))
        (argv ! 2) (drop 2 argv)")
      case (Inl e)
      with joined assms show ?thesis
        by (simp add: main_handoff) (simp add: handed_def start_def)
    next
      case (Inr found)
      with joined assms show ?thesis by (simp add: main_handoff)
    qed
  qed
  then show "r = 1" and "length (stderr (snd (main env argv (start fdt fs)))) = 1"
    by simp_all
qed

lemma run_host_42_echo:
  "main host_42 echo_argv (start std_fds [Other_file]) =
     (Replaced ''/bin/echo'' [''echo'', ''hello''],
      \<lparr>fdtab = std_fds, files = [Other_file, packet_socket host_42 [multi 2]],
       errno = EBADF,
       calls = [Call_socket AF_PACKET SOCK_RAW 0xb588, Call_if_nametoindex ''eth0'',
                Call_setsockopt 3 SOL_PACKET PACKET_ADD_MEMBERSHIP (multi 2),
                Call_dup2 3 42, Call_close 3, Call_execvp ''echo'' [''echo'', ''hello'']],
       stderr = []\<rparr>)"
proof -
  have "lowest_free host_42 (start std_fds [Other_file]) = Some 3"
    by (rule lowest_free_std) (simp add: host_42_def host_def)
  moreover have "socket_refusal host_42 = None" "ifaces host_42 ''eth0'' = Some 2"
    "mship_refusal host_42 (multi 2) = None" "\<And>cur args. execvp_lookup host_42 cur ''echo'' args = Inr (''/bin/echo'', args)"
    "nofile host_42 \<le> 42" "htons host_42 0x88b5 = 0xb588"
    by (simp_all add: host_42_def host_def lookup_echo htons_def)
  moreover have "std_fds(3 := None) = std_fds"
    by (rule ext) (simp add: std_fds_def)
  ultimately show ?thesis
    by (simp add: main_handoff [where sock = 3 and idx = 2] echo_argv_def)
      (simp add: handed_def start_def)
qed

text \<open>
  Claim C8, on an input where it fails. The descriptor limit is 42, so that descriptor
  42 is outside the table, and the usual three descriptors are open. The socket is
  created at descriptor 3 and joins the group. \<^verbatim>\<open>dup2(3, 42)\<close> then fails: it returns
  \<open>-1\<close> and sets \<^verbatim>\<open>errno\<close> to \<^verbatim>\<open>EBADF\<close>. The run does not stop there: it closes
  descriptor 3, writes nothing to the error stream and replaces the image by
  \<^verbatim>\<open>/bin/echo\<close>, which starts with the descriptor table of the start and no descriptor
  of the socket.
\<close>

theorem failed_dup2_is_ignored:
  "dup2 host_42 3 42 (joined host_42 echo_argv 3 2 (start std_fds [Other_file])) =
     fail EBADF (log_call (Call_dup2 3 42)
       (joined host_42 echo_argv 3 2 (start std_fds [Other_file])))
   \<and> fst (main host_42 echo_argv (start std_fds [Other_file])) =
       Replaced ''/bin/echo'' [''echo'', ''hello'']
   \<and> drop 3 (calls (snd (main host_42 echo_argv (start std_fds [Other_file])))) =
       [Call_dup2 3 42, Call_close 3, Call_execvp ''echo'' [''echo'', ''hello'']]
   \<and> errno (snd (main host_42 echo_argv (start std_fds [Other_file]))) = EBADF
   \<and> stderr (snd (main host_42 echo_argv (start std_fds [Other_file]))) = []
   \<and> fdtab (snd (main host_42 echo_argv (start std_fds [Other_file]))) = std_fds
   \<and> std_fds 42 = None"
  by (simp add: run_host_42_echo)
    (simp add: dup2_def joined_def log_call_def start_def host_42_def host_def std_fds_def)

end
